theory Spec2Isabelle
  imports Complex_Main "HOL-Library.Product_Lexorder"
begin

section \<open>Product search over a static catalog (stream.py)\<close>

text \<open>
  The module ranks the rows of a catalog against a free-text query by TF-IDF cosine
  similarity over five text fields, keeps the best rows, filters them by price, discount
  and rating, and shapes the survivors into product summaries.

  Conventions of the embedding.
  \<^item> Python floats are idealised as \<^typ>\<open>real\<close>; a NaN cell of a float column is
    \<^term>\<open>None\<close>.
  \<^item> A Python string is the list of its Unicode code points. The tables of the Unicode
    database that \<open>str.lower\<close>, \<open>str.strip\<close> and the classes \<open>\w\<close> and \<open>\s\<close> of \<open>re\<close>
    consult are a parameter (the record \<open>unicode\<close>).
  \<^item> Exceptions are values: a function that can raise returns \<open>error + 'a\<close>.
  \<^item> \<open>eval\<close> runs the text of a catalog cell as Python code. What such code can read
    or change outside the module (the clock, a random generator, files) is the
    \<open>world\<close>, which every evaluation takes and returns.
  \<^item> The fitted state of a scikit-learn vectorizer (its vocabulary in column order, with
    the learned idf of every term) is data of the environment; \<open>transform\<close> and
    \<open>cosine_similarity\<close> follow the library's documented default behaviour.
\<close>

subsection \<open>Errors\<close>

datatype error =
    ValueError   \<comment> \<open>inconsistent shapes in a sparse or array operation\<close>
  | TypeError    \<comment> \<open>subscripting an object that is not subscriptable\<close>
  | IndexError   \<comment> \<open>index 0 of an empty sequence\<close>
  | KeyError     \<comment> \<open>key 0 missing from a dictionary\<close>

subsection \<open>Strings and the Unicode tables\<close>

type_synonym codepoint = nat

type_synonym pystr = "codepoint list"

definition str :: "string \<Rightarrow> pystr" where
  \<comment> \<open>the Python string of an ASCII literal\<close>
  "str s = map of_char s"

text \<open>
  The properties of a code point that the module's string operations use:
  its full lowercase mapping (one to three code points; itself when it has none), whether
  it is cased, case-ignorable or uppercase, whether \<open>str.isalnum\<close> holds of it, and
  whether \<open>str.isspace\<close> holds of it.
\<close>

record unicode =
  to_lower :: "codepoint \<Rightarrow> codepoint list"
  cased :: "codepoint \<Rightarrow> bool"
  case_ignorable :: "codepoint \<Rightarrow> bool"
  uppercase :: "codepoint \<Rightarrow> bool"
  alnum :: "codepoint \<Rightarrow> bool"
  whitespace :: "codepoint \<Rightarrow> bool"

definition is_word_char :: "unicode \<Rightarrow> codepoint \<Rightarrow> bool" where
  \<comment> \<open>\<open>\w\<close> of \<open>re\<close> on a \<open>str\<close> pattern: alphanumeric, or the underscore\<close>
  "is_word_char U c = (alnum U c \<or> c = 95)"

definition is_space_char :: "unicode \<Rightarrow> codepoint \<Rightarrow> bool" where
  \<comment> \<open>\<open>\s\<close> of \<open>re\<close> on a \<open>str\<close> pattern, and the characters \<open>str.strip()\<close> removes\<close>
  "is_space_char U c = whitespace U c"

definition final_sigma :: "unicode \<Rightarrow> pystr \<Rightarrow> pystr \<Rightarrow> bool" where
  \<comment> \<open>the Final Sigma context of a capital sigma: \<open>seen\<close> holds the characters in
      front of it, the nearest first, and \<open>after\<close> those behind it. A cased character
      precedes it and none follows it, case-ignorable characters being skipped.\<close>
  "final_sigma U seen after =
     ((case dropWhile (case_ignorable U) seen of [] \<Rightarrow> False | c # _ \<Rightarrow> cased U c)
      \<and> (case dropWhile (case_ignorable U) after of [] \<Rightarrow> True | c # _ \<Rightarrow> \<not> cased U c))"

fun lower_from :: "unicode \<Rightarrow> pystr \<Rightarrow> pystr \<Rightarrow> pystr" where
  \<comment> \<open>the loop of \<open>str.lower\<close>: capital sigma (931) becomes the final (962) or the
      plain (963) small sigma by its context, any other character its lowercase mapping\<close>
  "lower_from U seen [] = []"
| "lower_from U seen (c # cs) =
     (if c = 931 then [if final_sigma U seen cs then 962 else 963] else to_lower U c)
     @ lower_from U (c # seen) cs"

definition py_lower :: "unicode \<Rightarrow> pystr \<Rightarrow> pystr" where
  "py_lower U s = lower_from U [] s"

definition py_strip :: "unicode \<Rightarrow> pystr \<Rightarrow> pystr" where
  \<comment> \<open>\<open>str.strip()\<close>: leading and trailing whitespace removed\<close>
  "py_strip U s =
     rev (dropWhile (is_space_char U) (rev (dropWhile (is_space_char U) s)))"

subsection \<open>\<open>normalize_text_simple\<close>\<close>

text \<open>
  A text cell of the data frame is a string or NaN (\<^term>\<open>None\<close>).
  \<^verbatim>\<open>
  def normalize_text_simple(text):
      if pd.isna(text): return ''
      text = str(text)
      text = text.lower()
      text = re.sub(r'[^\w\s]', '', text)
      return text
  \<close>
\<close>

definition kept_char :: "unicode \<Rightarrow> codepoint \<Rightarrow> bool" where
  \<comment> \<open>the characters that \<open>re.sub(r'[^\w\s]', '', _)\<close> leaves in place\<close>
  "kept_char U c = (is_word_char U c \<or> is_space_char U c)"

definition normalize_text_simple :: "unicode \<Rightarrow> pystr option \<Rightarrow> pystr" where
  "normalize_text_simple U text =
     (case text of
        None \<Rightarrow> []
      | Some s \<Rightarrow> filter (kept_char U) (py_lower U s))"

subsection \<open>The catalog\<close>

text \<open>
  A cell of the \<open>product_rating\<close> column, as \<open>read_csv\<close> leaves it: a number, a string
  (such as \<open>No rating available\<close>) or NaN.
\<close>

datatype cell = CNum real | CStr pystr | CNaN

text \<open>
  One row of \<open>df\<close>. The text columns hold a string or NaN, the price columns a float or
  NaN. The column \<open>image\<close> is named \<open>image_col\<close> here.
\<close>

record row =
  product_name :: "pystr option"
  product_category_tree :: "pystr option"
  brand :: "pystr option"
  description :: "pystr option"
  extracted_specifications :: "pystr option"
  retail_price :: "real option"
  discounted_price :: "real option"
  product_rating :: cell
  image_col :: "pystr option"
  product_url :: "pystr option"

subsection \<open>Vectors and sparse matrices\<close>

text \<open>
  A query vector is a sparse matrix of one row, modelled by the list of its entries. A
  document-term matrix keeps its number of columns beside its rows, as the shape of a
  sparse matrix does.
\<close>

record matrix =
  ncols :: nat
  mrows :: "real list list"

definition scale :: "real \<Rightarrow> real list \<Rightarrow> real list" where
  \<comment> \<open>\<open>w * v\<close> with a scalar \<open>w\<close>\<close>
  "scale w v = map (\<lambda>x. w * x) v"

definition add_vec :: "real list \<Rightarrow> real list \<Rightarrow> error + real list" where
  \<comment> \<open>\<open>a + b\<close>: entrywise, and a \<open>ValueError\<close> when the shapes differ\<close>
  "add_vec a b =
     (if length a = length b then Inr (map (\<lambda>(x, y). x + y) (zip a b)) else Inl ValueError)"

definition add_res :: "error + real list \<Rightarrow> real list \<Rightarrow> error + real list" where
  \<comment> \<open>the next summand of a chain \<open>a + b + c\<close>, evaluated left to right\<close>
  "add_res acc b = (case acc of Inl err \<Rightarrow> Inl err | Inr a \<Rightarrow> add_vec a b)"

definition dot :: "real list \<Rightarrow> real list \<Rightarrow> real" where
  "dot a b = sum_list (map (\<lambda>(x, y). x * y) (zip a b))"

definition l2_norm :: "real list \<Rightarrow> real" where
  "l2_norm v = sqrt (sum_list (map (\<lambda>x. x * x) v))"

definition l2_normalize :: "real list \<Rightarrow> real list" where
  \<comment> \<open>\<open>sklearn.preprocessing.normalize\<close>: a row of norm zero is left as it is\<close>
  "l2_normalize v = (if l2_norm v = 0 then v else map (\<lambda>x. x / l2_norm v) v)"

definition cosine :: "real list \<Rightarrow> real list \<Rightarrow> real" where
  "cosine a b = dot (l2_normalize a) (l2_normalize b)"

definition cosine_similarity :: "real list \<Rightarrow> matrix \<Rightarrow> error + real list" where
  \<comment> \<open>\<open>cosine_similarity(X, Y).flatten()\<close> for a one-row \<open>X\<close>: the library first checks
      that \<open>X\<close> and \<open>Y\<close> have the same number of columns\<close>
  "cosine_similarity x m =
     (if length x = ncols m then Inr (map (cosine x) (mrows m)) else Inl ValueError)"

subsection \<open>The fitted vectorizers\<close>

text \<open>
  A fitted \<open>TfidfVectorizer\<close>: the terms of its vocabulary in column order, each with its
  idf. \<open>max_features=3000\<close> caps the vocabulary at the fit.
\<close>

type_synonym vectorizer = "(pystr \<times> real) list"

definition max_features :: nat where
  "max_features = 3000"

fun runs :: "unicode \<Rightarrow> pystr \<Rightarrow> pystr \<Rightarrow> pystr list" where
  \<comment> \<open>the maximal runs of word characters, \<open>cur\<close> being the run read so far\<close>
  "runs U cur [] = [cur]"
| "runs U cur (c # cs) =
     (if is_word_char U c then runs U (cur @ [c]) cs else cur # runs U [] cs)"

definition tokenize :: "unicode \<Rightarrow> pystr \<Rightarrow> pystr list" where
  \<comment> \<open>the default \<open>token_pattern\<close> \<open>\b\w\w+\b\<close>: runs of two or more word characters\<close>
  "tokenize U s = filter (\<lambda>t. 2 \<le> length t) (runs U [] s)"

definition transform :: "unicode \<Rightarrow> vectorizer \<Rightarrow> pystr \<Rightarrow> real list" where
  \<comment> \<open>\<open>vectorizer.transform([doc])\<close>: lowercase, tokenize, count every term of the
      vocabulary, weigh by idf, normalise the row; a term outside the vocabulary has no
      column\<close>
  "transform U vz doc =
     l2_normalize
       (map (\<lambda>(term, idf). real (count_list (tokenize U (py_lower U doc)) term) * idf) vz)"

definition transform_docs :: "unicode \<Rightarrow> vectorizer \<Rightarrow> pystr list \<Rightarrow> matrix" where
  \<comment> \<open>the matrix that \<open>fit_transform\<close> returns for the column it was fitted on\<close>
  "transform_docs U vz docs = \<lparr>ncols = length vz, mrows = map (transform U vz) docs\<rparr>"

subsection \<open>Values that \<open>eval\<close> can return\<close>

text \<open>
  Lists, tuples, dictionaries (their items in order), strings, numbers, booleans and
  \<open>None\<close>; \<open>PObject b\<close> is any other object, of truth value \<open>b\<close>, that cannot be
  subscripted (a set, a function).
\<close>

datatype pyval =
    PList "pyval list"
  | PTuple "pyval list"
  | PDict "(pyval \<times> pyval) list"
  | PStr pystr
  | PNum real
  | PBool bool
  | PNone
  | PObject bool

fun truthy :: "pyval \<Rightarrow> bool" where
  "truthy (PList xs) = (xs \<noteq> [])"
| "truthy (PTuple xs) = (xs \<noteq> [])"
| "truthy (PDict kvs) = (kvs \<noteq> [])"
| "truthy (PStr s) = (s \<noteq> [])"
| "truthy (PNum x) = (x \<noteq> 0)"
| "truthy (PBool b) = b"
| "truthy PNone = False"
| "truthy (PObject b) = b"

fun is_zero_key :: "pyval \<Rightarrow> bool" where
  \<comment> \<open>the keys that a dictionary finds under \<open>0\<close>: \<open>0\<close>, \<open>0.0\<close> and \<open>False\<close>\<close>
  "is_zero_key (PNum x) = (x = 0)"
| "is_zero_key (PBool b) = (\<not> b)"
| "is_zero_key v = False"

fun getitem0 :: "pyval \<Rightarrow> error + pyval" where
  \<comment> \<open>\<open>v[0]\<close>\<close>
  "getitem0 (PList []) = Inl IndexError"
| "getitem0 (PList (x # xs)) = Inr x"
| "getitem0 (PTuple []) = Inl IndexError"
| "getitem0 (PTuple (x # xs)) = Inr x"
| "getitem0 (PDict kvs) =
     (case filter (\<lambda>kv. is_zero_key (fst kv)) kvs of
        [] \<Rightarrow> Inl KeyError
      | kv # _ \<Rightarrow> Inr (snd kv))"
| "getitem0 (PStr []) = Inl IndexError"
| "getitem0 (PStr (c # cs)) = Inr (PStr [c])"
| "getitem0 (PNum x) = Inl TypeError"
| "getitem0 (PBool b) = Inl TypeError"
| "getitem0 PNone = Inl TypeError"
| "getitem0 (PObject b) = Inl TypeError"

subsection \<open>The module's globals\<close>

text \<open>
  The data frame and the five fitted vectorizers, with what the libraries bring:
  \<^item> \<open>ucd\<close>, the Unicode tables of the interpreter;
  \<^item> \<open>py_eval\<close>, Python's \<open>eval\<close> on a string: the value (\<^term>\<open>None\<close> when it raises)
    and the world after the evaluation;
  \<^item> \<open>parse_number\<close>, the number parser that \<open>pd.to_numeric\<close> applies to a string
    (\<^term>\<open>None\<close> when the string is not a number);
  \<^item> \<open>unstable_rank\<close>, the place that numpy's default sort gives an index among the
    indices of the same value in a long array (see \<open>argsort\<close> below).
\<close>

type_synonym world = nat

record env =
  df :: "row list"
  tfidf_name :: vectorizer
  tfidf_category :: vectorizer
  tfidf_brand :: vectorizer
  tfidf_description :: vectorizer
  tfidf_specifications :: vectorizer
  ucd :: unicode
  py_eval :: "pystr \<Rightarrow> world \<Rightarrow> pyval option \<times> world"
  parse_number :: "pystr \<Rightarrow> real option"
  unstable_rank :: "real list \<Rightarrow> nat \<Rightarrow> nat"

definition normalized_product_name :: "env \<Rightarrow> row \<Rightarrow> pystr" where
  "normalized_product_name e r = normalize_text_simple (ucd e) (product_name r)"

definition normalized_product_category :: "env \<Rightarrow> row \<Rightarrow> pystr" where
  "normalized_product_category e r = normalize_text_simple (ucd e) (product_category_tree r)"

definition normalized_brand :: "env \<Rightarrow> row \<Rightarrow> pystr" where
  "normalized_brand e r = normalize_text_simple (ucd e) (brand r)"

definition normalized_description :: "env \<Rightarrow> row \<Rightarrow> pystr" where
  "normalized_description e r = normalize_text_simple (ucd e) (description r)"

definition normalized_extracted_specifications :: "env \<Rightarrow> row \<Rightarrow> pystr" where
  "normalized_extracted_specifications e r =
     normalize_text_simple (ucd e) (extracted_specifications r)"

definition tfidf_name_matrix :: "env \<Rightarrow> matrix" where
  "tfidf_name_matrix e =
     transform_docs (ucd e) (tfidf_name e) (map (normalized_product_name e) (df e))"

definition tfidf_category_matrix :: "env \<Rightarrow> matrix" where
  "tfidf_category_matrix e =
     transform_docs (ucd e) (tfidf_category e) (map (normalized_product_category e) (df e))"

definition tfidf_brand_matrix :: "env \<Rightarrow> matrix" where
  "tfidf_brand_matrix e =
     transform_docs (ucd e) (tfidf_brand e) (map (normalized_brand e) (df e))"

definition tfidf_description_matrix :: "env \<Rightarrow> matrix" where
  "tfidf_description_matrix e =
     transform_docs (ucd e) (tfidf_description e) (map (normalized_description e) (df e))"

definition tfidf_specifications_matrix :: "env \<Rightarrow> matrix" where
  "tfidf_specifications_matrix e =
     transform_docs (ucd e) (tfidf_specifications e)
       (map (normalized_extracted_specifications e) (df e))"

definition w_name :: real where "w_name = 4 / 10"
definition w_category :: real where "w_category = 2 / 10"
definition w_brand :: real where "w_brand = 15 / 100"
definition w_description :: real where "w_description = 15 / 100"
definition w_specifications :: real where "w_specifications = 1 / 10"

subsection \<open>\<open>get_weighted_tfidf_vector\<close>\<close>

text \<open>
  \<^verbatim>\<open>
  def get_weighted_tfidf_vector(query):
      query = normalize_text_simple(query)
      query_name_vector = tfidf_name.transform([query])
      ... (one per field)
      weighted_vector = (weights['name'] * query_name_vector +
                         weights['category'] * query_category_vector +
                         weights['brand'] * query_brand_vector +
                         weights['description'] * query_description_vector +
                         weights['specifications'] * query_specifications_vector)
      return weighted_vector
  \<close>
\<close>

definition get_weighted_tfidf_vector :: "env \<Rightarrow> pystr \<Rightarrow> error + real list" where
  "get_weighted_tfidf_vector e query0 =
     (let query = normalize_text_simple (ucd e) (Some query0);
          query_name_vector = transform (ucd e) (tfidf_name e) query;
          query_category_vector = transform (ucd e) (tfidf_category e) query;
          query_brand_vector = transform (ucd e) (tfidf_brand e) query;
          query_description_vector = transform (ucd e) (tfidf_description e) query;
          query_specifications_vector = transform (ucd e) (tfidf_specifications e) query
      in add_res (add_res (add_res (add_res
           (Inr (scale w_name query_name_vector))
           (scale w_category query_category_vector))
           (scale w_brand query_brand_vector))
           (scale w_description query_description_vector))
           (scale w_specifications query_specifications_vector))"

subsection \<open>\<open>calculate_discount_percentage\<close>\<close>

text \<open>
  \<^verbatim>\<open>
  def calculate_discount_percentage(row):
      if row['retail_price'] > 0:
          return 100 * (1 - row['discounted_price'] / row['retail_price'])
      return float('nan')
  \<close>
  A comparison with NaN is false, and arithmetic on NaN gives NaN.
\<close>

definition calculate_discount_percentage :: "row \<Rightarrow> real option" where
  "calculate_discount_percentage r =
     (case retail_price r of
        None \<Rightarrow> None
      | Some rp \<Rightarrow>
          if rp > 0 then
            (case discounted_price r of
               None \<Rightarrow> None
             | Some dp \<Rightarrow> Some (100 * (1 - dp / rp)))
          else None)"

subsection \<open>\<open>get_relevant_products\<close>: ranking\<close>

text \<open>
  \<^verbatim>\<open>
  similarities_name = cosine_similarity(query_vector, tfidf_name_matrix).flatten()
  ... (one per field)
  combined_similarities = (weights['name'] * similarities_name +
                           weights['category'] * similarities_category +
                           weights['brand'] * similarities_brand +
                           weights['description'] * similarities_description +
                           weights['specifications'] * similarities_specifications)
  \<close>
\<close>

definition combined_similarities :: "env \<Rightarrow> real list \<Rightarrow> error + real list" where
  "combined_similarities e query_vector =
     (case cosine_similarity query_vector (tfidf_name_matrix e) of
        Inl err \<Rightarrow> Inl err
      | Inr similarities_name \<Rightarrow>
     (case cosine_similarity query_vector (tfidf_category_matrix e) of
        Inl err \<Rightarrow> Inl err
      | Inr similarities_category \<Rightarrow>
     (case cosine_similarity query_vector (tfidf_brand_matrix e) of
        Inl err \<Rightarrow> Inl err
      | Inr similarities_brand \<Rightarrow>
     (case cosine_similarity query_vector (tfidf_description_matrix e) of
        Inl err \<Rightarrow> Inl err
      | Inr similarities_description \<Rightarrow>
     (case cosine_similarity query_vector (tfidf_specifications_matrix e) of
        Inl err \<Rightarrow> Inl err
      | Inr similarities_specifications \<Rightarrow>
          add_res (add_res (add_res (add_res
            (Inr (scale w_name similarities_name))
            (scale w_category similarities_category))
            (scale w_brand similarities_brand))
            (scale w_description similarities_description))
            (scale w_specifications similarities_specifications))))))"

text \<open>
  \<^verbatim>\<open>top_indices = combined_similarities.argsort()[-top_n:][::-1]\<close>

  \<open>argsort\<close> lists the indices by ascending score, with numpy's default sort. That sort
  runs an insertion sort on an array of at most 16 elements, which keeps indices of equal
  score in ascending order. On a longer array it partitions first and promises no order
  among indices of equal score: there the order of a tie is the one the environment's
  \<open>unstable_rank\<close> gives.
\<close>

definition small_sort :: nat where
  "small_sort = 16"

definition argsort :: "env \<Rightarrow> real list \<Rightarrow> nat list" where
  "argsort e a =
     (if length a \<le> small_sort then sort_key (\<lambda>i. a ! i) [0..<length a]
      else sort_key (\<lambda>i. (a ! i, unstable_rank e a i)) [0..<length a])"

definition slice_from :: "int \<Rightarrow> 'a list \<Rightarrow> 'a list" where
  \<comment> \<open>\<open>xs[k:]\<close>: a negative \<open>k\<close> counts from the end, and the start is clipped to the list\<close>
  "slice_from k xs =
     (let n = int (length xs);
          start = (if k < 0 then max (n + k) 0 else min k n)
      in drop (nat start) xs)"

definition top_indices :: "env \<Rightarrow> real list \<Rightarrow> int \<Rightarrow> nat list" where
  "top_indices e combined top_n = rev (slice_from (- top_n) (argsort e combined))"

definition scores :: "env \<Rightarrow> pystr \<Rightarrow> error + real list" where
  \<comment> \<open>\<open>combined_similarities\<close> as \<open>get_relevant_products\<close> computes it for a query\<close>
  "scores e query =
     (case get_weighted_tfidf_vector e query of
        Inl err \<Rightarrow> Inl err
      | Inr query_vector \<Rightarrow> combined_similarities e query_vector)"

definition rank :: "env \<Rightarrow> pystr \<Rightarrow> int \<Rightarrow> error + nat list" where
  \<comment> \<open>the ranking part of \<open>get_relevant_products\<close>, up to \<open>top_indices\<close>\<close>
  "rank e query top_n =
     (case scores e query of
        Inl err \<Rightarrow> Inl err
      | Inr combined \<Rightarrow> Inr (top_indices e combined top_n))"

subsection \<open>\<open>get_relevant_products\<close>: filtering\<close>

text \<open>
  \<^verbatim>\<open>
  results = df.iloc[top_indices].copy()
  results['product_rating'] = pd.to_numeric(results['product_rating'], errors='coerce')
  results['discount_percentage'] = results.apply(calculate_discount_percentage, axis=1)
  \<close>
\<close>

record result_row =
  source :: row
  rating :: "real option"
  discount_percentage :: "real option"

definition to_numeric :: "env \<Rightarrow> cell \<Rightarrow> real option" where
  \<comment> \<open>\<open>pd.to_numeric(_, errors='coerce')\<close> on one cell\<close>
  "to_numeric e c =
     (case c of CNum x \<Rightarrow> Some x | CStr s \<Rightarrow> parse_number e s | CNaN \<Rightarrow> None)"

definition make_result :: "env \<Rightarrow> row \<Rightarrow> result_row" where
  "make_result e r =
     \<lparr>source = r,
      rating = to_numeric e (product_rating r),
      discount_percentage = calculate_discount_percentage r\<rparr>"

definition results :: "env \<Rightarrow> nat list \<Rightarrow> result_row list" where
  "results e idx = map (\<lambda>i. make_result e (df e ! i)) idx"

definition fillna :: "real \<Rightarrow> real option \<Rightarrow> real" where
  "fillna d v = (case v of None \<Rightarrow> d | Some x \<Rightarrow> x)"

definition isna :: "real option \<Rightarrow> bool" where
  "isna v = (v = None)"

text \<open>
  \<^verbatim>\<open>
  filtered_results = results[
      ((results['discounted_price'].fillna(max_price + 1) <= max_price) | results['discounted_price'].isna()) &
      ((results['discount_percentage'].fillna(-1) >= min_discount) | results['discount_percentage'].isna()) &
      ((results['product_rating'].fillna(-1) >= min_rating) | results['product_rating'].isna())
  ]
  \<close>
\<close>

definition price_mask :: "real \<Rightarrow> result_row \<Rightarrow> bool" where
  "price_mask max_price r =
     (fillna (max_price + 1) (discounted_price (source r)) \<le> max_price
      \<or> isna (discounted_price (source r)))"

definition discount_mask :: "real \<Rightarrow> result_row \<Rightarrow> bool" where
  "discount_mask min_discount r =
     (fillna (- 1) (discount_percentage r) \<ge> min_discount \<or> isna (discount_percentage r))"

definition rating_mask :: "real \<Rightarrow> result_row \<Rightarrow> bool" where
  "rating_mask min_rating r =
     (fillna (- 1) (rating r) \<ge> min_rating \<or> isna (rating r))"

definition row_mask :: "real \<Rightarrow> real \<Rightarrow> real \<Rightarrow> result_row \<Rightarrow> bool" where
  "row_mask max_price min_discount min_rating r =
     (price_mask max_price r \<and> discount_mask min_discount r \<and> rating_mask min_rating r)"

definition filtered_results ::
  "real \<Rightarrow> real \<Rightarrow> real \<Rightarrow> result_row list \<Rightarrow> result_row list" where
  "filtered_results max_price min_discount min_rating rs =
     filter (row_mask max_price min_discount min_rating) rs"

subsection \<open>\<open>get_relevant_products\<close>: the product summaries\<close>

text \<open>
  \<^verbatim>\<open>
  products = []
  for _, row in filtered_results.iterrows():
      try:
          image_urls = eval(row['image'])
      except:
          image_urls = []
      if image_urls:
          products.append({"image": image_urls[0], "name": row['product_name'],
                           "price": row['discounted_price'], "url": row['product_url']})
  return products
  \<close>
  \<open>eval\<close> of a NaN cell raises, as \<open>eval\<close> of a string that is no expression does. The
  subscript \<open>image_urls[0]\<close> is outside the \<open>try\<close>: when it raises, the loop ends and
  the exception reaches the caller.
\<close>

record product =
  p_image :: pyval
  p_name :: "pystr option"
  p_price :: "real option"
  p_url :: "pystr option"

definition eval_image :: "env \<Rightarrow> row \<Rightarrow> world \<Rightarrow> pyval \<times> world" where
  \<comment> \<open>the \<open>try\<close> statement: the value of \<open>image_urls\<close> after it, and the world\<close>
  "eval_image e r w =
     (case image_col r of
        None \<Rightarrow> (PList [], w)
      | Some s \<Rightarrow>
          (case py_eval e s w of
             (None, w') \<Rightarrow> (PList [], w')
           | (Some v, w') \<Rightarrow> (v, w')))"

fun build_products ::
  "env \<Rightarrow> world \<Rightarrow> result_row list \<Rightarrow> (error + product list) \<times> world" where
  "build_products e w [] = (Inr [], w)"
| "build_products e w (r # rs) =
     (case eval_image e (source r) w of
        (image_urls, w1) \<Rightarrow>
          if truthy image_urls then
            (case getitem0 image_urls of
               Inl err \<Rightarrow> (Inl err, w1)
             | Inr first \<Rightarrow>
                 (case build_products e w1 rs of
                    (Inl err, w2) \<Rightarrow> (Inl err, w2)
                  | (Inr products, w2) \<Rightarrow>
                      (Inr (\<lparr>p_image = first,
                             p_name = product_name (source r),
                             p_price = discounted_price (source r),
                             p_url = product_url (source r)\<rparr> # products), w2)))
          else build_products e w1 rs)"

text \<open>
  \<^verbatim>\<open>
  def get_relevant_products(query, max_price, min_discount, min_rating, top_n=12):
      if not query.strip():
          return []
      query_vector = get_weighted_tfidf_vector(query)
      ...
  \<close>
\<close>

definition get_relevant_products ::
  "env \<Rightarrow> world \<Rightarrow> pystr \<Rightarrow> real \<Rightarrow> real \<Rightarrow> real \<Rightarrow> int
     \<Rightarrow> (error + product list) \<times> world" where
  "get_relevant_products e w query max_price min_discount min_rating top_n =
     (if py_strip (ucd e) query = [] then (Inr [], w)
      else
        (case rank e query top_n of
           Inl err \<Rightarrow> (Inl err, w)
         | Inr idx \<Rightarrow>
             build_products e w
               (filtered_results max_price min_discount min_rating (results e idx))))"

subsection \<open>The \<open>/search\<close> endpoint\<close>

text \<open>
  \<^verbatim>\<open>
  async def search(query, max_price = Query(99999), min_discount = Query(0), min_rating = Query(0)):
      products = get_relevant_products(query, max_price, min_discount, min_rating)
  \<close>
\<close>

definition search ::
  "env \<Rightarrow> world \<Rightarrow> pystr \<Rightarrow> real \<Rightarrow> real \<Rightarrow> real \<Rightarrow> (error + product list) \<times> world" where
  "search e w query max_price min_discount min_rating =
     get_relevant_products e w query max_price min_discount min_rating 12"


subsection \<open>Notions used to state the properties\<close>

definition lower_stable :: "unicode \<Rightarrow> bool" where
  \<comment> \<open>lowercasing twice is lowercasing once: a character of a lowercase mapping, and
      either small sigma, is its own lowercase mapping and is not the capital sigma\<close>
  "lower_stable U =
     ((\<forall>c. \<forall>d\<in>set (to_lower U c). d \<noteq> 931 \<and> to_lower U d = [d])
      \<and> to_lower U 962 = [962] \<and> to_lower U 963 = [963])"

definition same_sizes :: "env \<Rightarrow> bool" where
  \<comment> \<open>the five vocabularies have the same number of terms\<close>
  "same_sizes e =
     (length (tfidf_category e) = length (tfidf_name e)
      \<and> length (tfidf_brand e) = length (tfidf_name e)
      \<and> length (tfidf_description e) = length (tfidf_name e)
      \<and> length (tfidf_specifications e) = length (tfidf_name e))"

definition all_at_cap :: "env \<Rightarrow> bool" where
  \<comment> \<open>every vocabulary has reached \<open>max_features\<close>\<close>
  "all_at_cap e =
     (length (tfidf_name e) = max_features
      \<and> length (tfidf_category e) = max_features
      \<and> length (tfidf_brand e) = max_features
      \<and> length (tfidf_description e) = max_features
      \<and> length (tfidf_specifications e) = max_features)"

definition field_similarity :: "env \<Rightarrow> real list \<Rightarrow> vectorizer \<Rightarrow> pystr \<Rightarrow> real" where
  \<comment> \<open>the cosine similarity of a query vector and the vector of one document of a field\<close>
  "field_similarity e v vz doc = cosine v (transform (ucd e) vz doc)"

definition weighted_score :: "env \<Rightarrow> real list \<Rightarrow> row \<Rightarrow> real" where
  \<comment> \<open>the five similarities of a row, each multiplied by the weight of its field\<close>
  "weighted_score e v r =
     w_name * field_similarity e v (tfidf_name e) (normalized_product_name e r)
     + w_category * field_similarity e v (tfidf_category e) (normalized_product_category e r)
     + w_brand * field_similarity e v (tfidf_brand e) (normalized_brand e r)
     + w_description * field_similarity e v (tfidf_description e) (normalized_description e r)
     + w_specifications
         * field_similarity e v (tfidf_specifications e)
             (normalized_extracted_specifications e r)"

definition unweighted_sum :: "env \<Rightarrow> real list \<Rightarrow> row \<Rightarrow> real" where
  \<comment> \<open>the five similarities that the code computes for a row, added with no weight\<close>
  "unweighted_sum e v r =
     field_similarity e v (tfidf_name e) (normalized_product_name e r)
     + field_similarity e v (tfidf_category e) (normalized_product_category e r)
     + field_similarity e v (tfidf_brand e) (normalized_brand e r)
     + field_similarity e v (tfidf_description e) (normalized_description e r)
     + field_similarity e v (tfidf_specifications e) (normalized_extracted_specifications e r)"

definition spec_combined_score :: "env \<Rightarrow> pystr \<Rightarrow> row \<Rightarrow> real" where
  \<comment> \<open>The score in the words of the specification: the query vector stays five weighted
      vectors, one in each field's space; each is compared with the row's vector of its
      field, and the five similarities are added with no further weight.\<close>
  "spec_combined_score e query0 r =
     (let query = normalize_text_simple (ucd e) (Some query0) in
      field_similarity e (scale w_name (transform (ucd e) (tfidf_name e) query))
          (tfidf_name e) (normalized_product_name e r)
      + field_similarity e (scale w_category (transform (ucd e) (tfidf_category e) query))
          (tfidf_category e) (normalized_product_category e r)
      + field_similarity e (scale w_brand (transform (ucd e) (tfidf_brand e) query))
          (tfidf_brand e) (normalized_brand e r)
      + field_similarity e (scale w_description (transform (ucd e) (tfidf_description e) query))
          (tfidf_description e) (normalized_description e r)
      + field_similarity e
          (scale w_specifications (transform (ucd e) (tfidf_specifications e) query))
          (tfidf_specifications e) (normalized_extracted_specifications e r))"


definition passes_at_most :: "real option \<Rightarrow> real \<Rightarrow> bool" where
  \<comment> \<open>the value is absent, or it is at most the threshold\<close>
  "passes_at_most v t = (case v of None \<Rightarrow> True | Some x \<Rightarrow> x \<le> t)"

definition passes_at_least :: "real option \<Rightarrow> real \<Rightarrow> bool" where
  \<comment> \<open>the value is absent, or it is at least the threshold\<close>
  "passes_at_least v t = (case v of None \<Rightarrow> True | Some x \<Rightarrow> t \<le> x)"



subsection \<open>A small catalog\<close>

text \<open>
  The Unicode tables of Python on the ASCII range and on a few further code points:
  NEL (133) and the no-break space (160), which are whitespace; the capital and small e
  with acute (201, 233); the three sigmas (931, 962, 963); and the double-struck capital C
  (8450), an uppercase letter with no lowercase mapping. Every other code point is taken
  as caseless, not alphanumeric and not whitespace.
\<close>

definition ascii_upper :: "codepoint \<Rightarrow> bool" where
  "ascii_upper c = (65 \<le> c \<and> c \<le> 90)"

definition ascii_lower :: "codepoint \<Rightarrow> bool" where
  "ascii_lower c = (97 \<le> c \<and> c \<le> 122)"

definition ascii_digit :: "codepoint \<Rightarrow> bool" where
  "ascii_digit c = (48 \<le> c \<and> c \<le> 57)"

definition ucd_sample :: unicode where
  "ucd_sample =
     \<lparr>to_lower = (\<lambda>c. if ascii_upper c then [c + 32]
                        else if c = 201 then [233]
                        else if c = 931 then [963]
                        else [c]),
      cased = (\<lambda>c. ascii_upper c \<or> ascii_lower c
                     \<or> c = 201 \<or> c = 233 \<or> c = 931 \<or> c = 962 \<or> c = 963 \<or> c = 8450),
      case_ignorable = (\<lambda>c. c = 39 \<or> c = 46 \<or> c = 58 \<or> c = 94 \<or> c = 96),
      uppercase = (\<lambda>c. ascii_upper c \<or> c = 201 \<or> c = 931 \<or> c = 8450),
      alnum = (\<lambda>c. ascii_upper c \<or> ascii_lower c \<or> ascii_digit c
                     \<or> c = 201 \<or> c = 233 \<or> c = 931 \<or> c = 962 \<or> c = 963 \<or> c = 8450),
      whitespace = (\<lambda>c. (9 \<le> c \<and> c \<le> 13) \<or> (28 \<le> c \<and> c \<le> 32) \<or> c = 133 \<or> c = 160)\<rparr>"

text \<open>
  Two rows with the same texts, so that every field has a vocabulary of one term whose
  idf is 1, and both rows have the same score for every query.
\<close>

definition row_a :: row where
  "row_a =
     \<lparr>product_name = Some (str ''Shoes''), product_category_tree = Some (str ''Footwear''),
      brand = Some (str ''Acme''), description = Some (str ''Shoes!''),
      extracted_specifications = Some (str ''Leather''),
      retail_price = Some 100, discounted_price = Some 80,
      product_rating = CStr (str ''4.5''),
      image_col = Some (str ''['a.jpg']''), product_url = Some (str ''http://shop/a'')\<rparr>"

definition row_b :: row where
  "row_b =
     \<lparr>product_name = Some (str ''Shoes''), product_category_tree = Some (str ''Footwear''),
      brand = Some (str ''Acme''), description = Some (str ''Shoes!''),
      extracted_specifications = Some (str ''Leather''),
      retail_price = Some 0, discounted_price = Some 10,
      product_rating = CStr (str ''No rating available''),
      image_col = Some (str ''['b.jpg']''), product_url = Some (str ''http://shop/b'')\<rparr>"

definition row_c :: row where
  \<comment> \<open>the first row with an image text that is no Python expression\<close>
  "row_c = row_a\<lparr>image_col := Some (str ''a.jpg, b.jpg'')\<rparr>"

definition row_five :: row where
  \<comment> \<open>the first row with the image text \<open>5\<close>, which evaluates to a number\<close>
  "row_five = row_a\<lparr>image_col := Some (str ''5'')\<rparr>"

definition row_clock :: row where
  \<comment> \<open>the first row with an image text that reads the clock\<close>
  "row_clock = row_a\<lparr>image_col := Some (str ''[__import__('time').time_ns()]'')\<rparr>"

definition shop_eval :: "pystr \<Rightarrow> world \<Rightarrow> pyval option \<times> world" where
  \<comment> \<open>\<open>eval\<close> on the image texts above; the clock is the world, and reading it takes
      time\<close>
  "shop_eval s w =
     (if s = str ''['a.jpg']'' then (Some (PList [PStr (str ''a.jpg'')]), w)
      else if s = str ''['b.jpg']'' then (Some (PList [PStr (str ''b.jpg'')]), w)
      else if s = str ''5'' then (Some (PNum 5), w)
      else if s = str ''[__import__('time').time_ns()]''
        then (Some (PList [PNum (real w)]), Suc w)
      else (None, w))"

definition shop_number :: "pystr \<Rightarrow> real option" where
  "shop_number s = (if s = str ''4.5'' then Some (9 / 2) else None)"

definition shop_with :: "row list \<Rightarrow> env" where
  \<comment> \<open>the globals after the module has loaded a catalog of rows with these texts\<close>
  "shop_with rows =
     \<lparr>df = rows,
      tfidf_name = [(str ''shoes'', 1)], tfidf_category = [(str ''footwear'', 1)],
      tfidf_brand = [(str ''acme'', 1)], tfidf_description = [(str ''shoes'', 1)],
      tfidf_specifications = [(str ''leather'', 1)],
      ucd = ucd_sample, py_eval = shop_eval, parse_number = shop_number,
      unstable_rank = (\<lambda>a i. 0)\<rparr>"

definition shop :: env where
  "shop = shop_with [row_a, row_b]"

definition shoe_texts :: "row \<Rightarrow> bool" where
  \<comment> \<open>the row has the five texts of \<open>row_a\<close>\<close>
  "shoe_texts r =
     (product_name r = Some (str ''Shoes'')
      \<and> product_category_tree r = Some (str ''Footwear'')
      \<and> brand r = Some (str ''Acme'')
      \<and> description r = Some (str ''Shoes!'')
      \<and> extracted_specifications r = Some (str ''Leather''))"

definition uneven_shop :: env where
  \<comment> \<open>the same catalog with a second term in the vocabulary of the brand field\<close>
  "uneven_shop = shop\<lparr>tfidf_brand := [(str ''acme'', 1), (str ''zeta'', 1)]\<rparr>"

definition five_shop :: env where
  \<comment> \<open>the catalog with the image text \<open>5\<close> in its first row\<close>
  "five_shop = shop_with [row_five, row_b]"


definition product_a :: product where
  "product_a =
     \<lparr>p_image = PStr (str ''a.jpg''), p_name = Some (str ''Shoes''), p_price = Some 80,
      p_url = Some (str ''http://shop/a'')\<rparr>"

definition product_b :: product where
  "product_b =
     \<lparr>p_image = PStr (str ''b.jpg''), p_name = Some (str ''Shoes''), p_price = Some 10,
      p_url = Some (str ''http://shop/b'')\<rparr>"


section \<open>Properties\<close>

subsection \<open>The text normalizer\<close>

lemma lower_from_fixed:
  "\<forall>d\<in>set t. d \<noteq> 931 \<and> to_lower U d = [d] \<Longrightarrow> lower_from U pre t = t"
  by (induction t arbitrary: pre) simp_all

lemma lower_from_output:
  assumes "lower_stable U"
  shows "\<forall>d\<in>set (lower_from U pre s). d \<noteq> 931 \<and> to_lower U d = [d]"
proof (induction s arbitrary: pre)
  case Nil
  then show ?case by simp
next
  case (Cons c cs)
  have sig: "to_lower U 962 = [962]" "to_lower U 963 = [963]"
    using assms by (simp_all add: lower_stable_def)
  have tab: "\<forall>d\<in>set (to_lower U c). d \<noteq> 931 \<and> to_lower U d = [d]"
    using assms by (simp add: lower_stable_def)
  show ?case
  proof (cases "c = 931")
    case True
    then show ?thesis
      using Cons.IH [of "c # pre"] sig by simp
  next
    case False
    then show ?thesis
      using Cons.IH [of "c # pre"] tab by auto
  qed
qed

lemma py_lower_normalized:
  assumes "lower_stable U"
  shows "py_lower U (filter P (py_lower U s)) = filter P (py_lower U s)"
  unfolding py_lower_def
  using lower_from_output [OF assms, of "[]" s]
  by (intro lower_from_fixed) simp

lemma normalize_Some:
  "normalize_text_simple U (Some s) = filter (kept_char U) (py_lower U s)"
  by (simp add: normalize_text_simple_def)

lemmas sample_simps = normalize_text_simple_def py_lower_def kept_char_def is_word_char_def
  is_space_char_def ucd_sample_def ascii_upper_def ascii_lower_def ascii_digit_def
  final_sigma_def tokenize_def py_strip_def str_def

lemma lower_stable_sample: "lower_stable ucd_sample"
  by (auto simp: lower_stable_def ucd_sample_def ascii_upper_def)

text \<open>
  C7 (as the code has it). The normalizer maps a missing input to the empty string;
  otherwise it lowercases the text with \<open>str.lower\<close> and removes every character that is
  neither a word character nor whitespace. With the case mapping of the Unicode database
  (lowercasing twice is lowercasing once) it is idempotent; its output holds only word
  characters and whitespace and is unchanged by \<open>str.lower\<close>.
\<close>

theorem normalize_text_simple_idempotent:
  assumes "lower_stable U"
  shows "normalize_text_simple U None = []
   \<and> normalize_text_simple U (Some s)
       = filter (\<lambda>c. is_word_char U c \<or> is_space_char U c) (py_lower U s)
   \<and> normalize_text_simple U (Some (normalize_text_simple U (Some s)))
       = normalize_text_simple U (Some s)
   \<and> list_all (\<lambda>c. is_word_char U c \<or> is_space_char U c)
        (normalize_text_simple U (Some s))
   \<and> py_lower U (normalize_text_simple U (Some s)) = normalize_text_simple U (Some s)"
proof -
  have k: "kept_char U = (\<lambda>c. is_word_char U c \<or> is_space_char U c)"
    by (rule ext) (simp add: kept_char_def)
  have a: "normalize_text_simple U None = []"
    by (simp add: normalize_text_simple_def)
  have b: "normalize_text_simple U (Some s)
       = filter (\<lambda>c. is_word_char U c \<or> is_space_char U c) (py_lower U s)"
    by (simp add: normalize_Some k)
  have e: "py_lower U (normalize_text_simple U (Some s)) = normalize_text_simple U (Some s)"
    by (simp add: normalize_Some py_lower_normalized [OF assms])
  have c: "normalize_text_simple U (Some (normalize_text_simple U (Some s)))
       = normalize_text_simple U (Some s)"
    by (simp add: normalize_Some py_lower_normalized [OF assms])
  have d: "list_all (\<lambda>c. is_word_char U c \<or> is_space_char U c)
        (normalize_text_simple U (Some s))"
    by (simp add: b list_all_iff)
  from a b c d e show ?thesis by blast
qed

theorem normalize_text_simple_idempotent_witness:
  "lower_stable ucd_sample
   \<and> normalize_text_simple ucd_sample (Some [201, 116, 233, 32, 8450, 33])
       = [233, 116, 233, 32, 8450]
   \<and> normalize_text_simple ucd_sample
        (Some (normalize_text_simple ucd_sample (Some [201, 116, 233, 32, 8450, 33])))
       = [233, 116, 233, 32, 8450]"
proof -
  have v: "normalize_text_simple ucd_sample (Some [201, 116, 233, 32, 8450, 33])
       = [233, 116, 233, 32, 8450]"
    by (simp add: sample_simps)
  have i: "normalize_text_simple ucd_sample
        (Some (normalize_text_simple ucd_sample (Some [201, 116, 233, 32, 8450, 33])))
       = normalize_text_simple ucd_sample (Some [201, 116, 233, 32, 8450, 33])"
    by (rule normalize_text_simple_idempotent [OF lower_stable_sample,
          of "[201, 116, 233, 32, 8450, 33]", THEN conjunct2, THEN conjunct2, THEN conjunct1])
  show ?thesis
    using lower_stable_sample v trans [OF i v] by blast
qed

text \<open>
  C7 as stated fails. The double-struck capital C (8450) is a word character and an
  uppercase letter with no lowercase mapping: the normalizer returns it as it is, so the
  output is not made of lowercase characters only.
\<close>

theorem normalize_keeps_uppercase_counterexample:
  "normalize_text_simple ucd_sample (Some [8450]) = [8450]
   \<and> is_word_char ucd_sample 8450
   \<and> uppercase ucd_sample 8450"
  by (simp add: sample_simps)

subsection \<open>The discount percentage\<close>

text \<open>
  C8. The discount percentage of a row is \<open>100 * (1 - discounted_price / retail_price)\<close>
  when the retail price is positive, and absent when the retail price is zero, negative
  or missing. (With a positive retail price and a missing discounted price the formula
  gives NaN, which is absent too.) The ranked row carries this value.
\<close>

theorem discount_percentage_formula:
  "(retail_price r = Some rp \<and> 0 < rp \<and> discounted_price r = Some dp \<longrightarrow>
      calculate_discount_percentage r = Some (100 * (1 - dp / rp)))
   \<and> (retail_price r = Some rp \<and> 0 < rp \<and> discounted_price r = None \<longrightarrow>
      calculate_discount_percentage r = None)
   \<and> (retail_price r = None \<or> (\<exists>x. retail_price r = Some x \<and> x \<le> 0) \<longrightarrow>
      calculate_discount_percentage r = None)
   \<and> discount_percentage (make_result e r) = calculate_discount_percentage r"
  by (auto simp: calculate_discount_percentage_def make_result_def)

theorem discount_percentage_formula_witness:
  "calculate_discount_percentage row_a = Some 20
   \<and> calculate_discount_percentage row_b = None"
proof -
  have a: "retail_price row_a = Some 100 \<and> 0 < (100::real) \<and> discounted_price row_a = Some 80"
    by (simp add: row_a_def)
  have b: "retail_price row_b = None \<or> (\<exists>x. retail_price row_b = Some x \<and> x \<le> 0)"
    by (simp add: row_b_def)
  show ?thesis
    using discount_percentage_formula [of row_a 100 80] a
      discount_percentage_formula [of row_b] b
    by simp
qed

subsection \<open>The numeric filters\<close>

lemma price_mask_iff: "price_mask t r \<longleftrightarrow> passes_at_most (discounted_price (source r)) t"
  by (cases "discounted_price (source r)")
     (simp_all add: price_mask_def passes_at_most_def fillna_def isna_def)

lemma discount_mask_iff: "discount_mask t r \<longleftrightarrow> passes_at_least (discount_percentage r) t"
  by (cases "discount_percentage r")
     (simp_all add: discount_mask_def passes_at_least_def fillna_def isna_def)

lemma rating_mask_iff: "rating_mask t r \<longleftrightarrow> passes_at_least (rating r) t"
  by (cases "rating r")
     (simp_all add: rating_mask_def passes_at_least_def fillna_def isna_def)

lemma discount_absent: "retail_price r = Some 0 \<Longrightarrow> calculate_discount_percentage r = None"
  by (simp add: calculate_discount_percentage_def)

text \<open>
  C2. The filter keeps exactly the ranked rows that pass all three numeric filters, in
  their order, where a filter passes when the value meets the threshold or is absent. A
  row whose retail price is 0 has no discount percentage and passes the discount filter
  for every \<open>min_discount\<close>.
\<close>

theorem filter_permissive:
  "filtered_results max_price min_discount min_rating rs
     = filter (\<lambda>r. passes_at_most (discounted_price (source r)) max_price
                  \<and> passes_at_least (discount_percentage r) min_discount
                  \<and> passes_at_least (rating r) min_rating) rs
   \<and> (retail_price r0 = Some 0 \<longrightarrow>
        discount_percentage (make_result e r0) = None
        \<and> discount_mask min_discount (make_result e r0))"
proof -
  have "row_mask max_price min_discount min_rating
          = (\<lambda>r. passes_at_most (discounted_price (source r)) max_price
                  \<and> passes_at_least (discount_percentage r) min_discount
                  \<and> passes_at_least (rating r) min_rating)"
    by (rule ext) (simp add: row_mask_def price_mask_iff discount_mask_iff rating_mask_iff)
  moreover have "discount_percentage (make_result e r0) = None
        \<and> discount_mask min_discount (make_result e r0)" if "retail_price r0 = Some 0"
    using discount_absent [OF that]
    by (simp add: make_result_def discount_mask_def isna_def)
  ultimately show ?thesis
    by (simp add: filtered_results_def)
qed


lemma shop_numbers:
  "shop_number (str ''4.5'') = Some (9 / 2)"
  "shop_number (str ''No rating available'') = None"
  by (simp_all add: shop_number_def str_def)

lemma shop_results_a: "make_result (shop_with d) row_a
    = \<lparr>source = row_a, rating = Some (9 / 2), discount_percentage = Some 20\<rparr>"
  by (simp add: make_result_def to_numeric_def shop_with_def shop_numbers row_a_def
      calculate_discount_percentage_def)

lemma shop_results_b: "make_result (shop_with d) row_b
    = \<lparr>source = row_b, rating = None, discount_percentage = None\<rparr>"
  by (simp add: make_result_def to_numeric_def shop_with_def shop_numbers row_b_def
      calculate_discount_percentage_def)

theorem filter_permissive_witness:
  "retail_price row_b = Some 0
   \<and> discount_mask 1000 (make_result shop row_b)
   \<and> filtered_results 50 1000 0 [make_result shop row_a, make_result shop row_b]
       = [make_result shop row_b]"
proof -
  have h: "retail_price row_b = Some 0"
    by (simp add: row_b_def)
  note t = filter_permissive [of 50 1000 0 "[make_result shop row_a, make_result shop row_b]"
        row_b shop]
  have m: "discount_mask 1000 (make_result shop row_b)"
    using t [THEN conjunct2] h by blast
  have pa: "discounted_price row_a = Some 80" by (simp add: row_a_def)
  have pb: "discounted_price row_b = Some 10" by (simp add: row_b_def)
  have "filter (\<lambda>r. passes_at_most (discounted_price (source r)) 50
                  \<and> passes_at_least (discount_percentage r) 1000
                  \<and> passes_at_least (rating r) 0)
          [make_result shop row_a, make_result shop row_b] = [make_result shop row_b]"
    by (simp add: shop_def shop_results_a shop_results_b passes_at_most_def
        passes_at_least_def pa pb)
  with t [THEN conjunct1]
  have f: "filtered_results 50 1000 0 [make_result shop row_a, make_result shop row_b]
       = [make_result shop row_b]"
    by (rule trans)
  from h m f show ?thesis by blast
qed

subsection \<open>Shapes of the query vector\<close>

lemma length_l2_normalize: "length (l2_normalize v) = length v"
  by (simp add: l2_normalize_def)

lemma length_transform: "length (transform U vz doc) = length vz"
  by (simp add: transform_def length_l2_normalize)

lemma length_scale: "length (scale w v) = length v"
  by (simp add: scale_def)

lemma add_res_Inl: "add_res (Inl err) b = Inl err"
  by (simp add: add_res_def)

lemma add_res_Inr:
  "add_res (Inr a) b =
     (if length a = length b then Inr (map (\<lambda>(x, y). x + y) (zip a b)) else Inl ValueError)"
  by (simp add: add_res_def add_vec_def)

lemma add_res_cases:
  "add_res acc b = Inr c \<longleftrightarrow>
     (\<exists>a. acc = Inr a \<and> length a = length b \<and> c = map (\<lambda>(x, y). x + y) (zip a b))"
  by (cases acc) (auto simp: add_res_Inl add_res_Inr)

lemma add_res_error: "add_res acc b = Inl err \<Longrightarrow> err = ValueError \<or> acc = Inl err"
  by (cases acc) (auto simp: add_res_Inl add_res_Inr split: if_splits)

lemma sum5_nth:
  assumes "length x2 = length x1" and "length x3 = length x1" and "length x4 = length x1"
    and "length x5 = length x1"
  shows "add_res (add_res (add_res (add_res
      (Inr (scale a x1)) (scale b x2)) (scale c x3)) (scale d x4)) (scale g x5)
   = Inr (map (\<lambda>k. a * x1 ! k + b * x2 ! k + c * x3 ! k + d * x4 ! k + g * x5 ! k)
        [0..<length x1])"
  using assms
  by (auto simp: add_res_Inr scale_def intro!: nth_equalityI)

lemma weighted_vector_eq:
  assumes "same_sizes e"
  shows "get_weighted_tfidf_vector e q =
     Inr (map (\<lambda>k. w_name * transform (ucd e) (tfidf_name e) (normalize_text_simple (ucd e) (Some q)) ! k
              + w_category * transform (ucd e) (tfidf_category e) (normalize_text_simple (ucd e) (Some q)) ! k
              + w_brand * transform (ucd e) (tfidf_brand e) (normalize_text_simple (ucd e) (Some q)) ! k
              + w_description
                  * transform (ucd e) (tfidf_description e) (normalize_text_simple (ucd e) (Some q)) ! k
              + w_specifications
                  * transform (ucd e) (tfidf_specifications e) (normalize_text_simple (ucd e) (Some q)) ! k)
          [0..<length (tfidf_name e)])"
proof -
  let ?q = "normalize_text_simple (ucd e) (Some q)"
  have "add_res (add_res (add_res (add_res
      (Inr (scale w_name (transform (ucd e) (tfidf_name e) ?q)))
      (scale w_category (transform (ucd e) (tfidf_category e) ?q)))
      (scale w_brand (transform (ucd e) (tfidf_brand e) ?q)))
      (scale w_description (transform (ucd e) (tfidf_description e) ?q)))
      (scale w_specifications (transform (ucd e) (tfidf_specifications e) ?q))
    = Inr (map (\<lambda>k. w_name * transform (ucd e) (tfidf_name e) ?q ! k
              + w_category * transform (ucd e) (tfidf_category e) ?q ! k
              + w_brand * transform (ucd e) (tfidf_brand e) ?q ! k
              + w_description * transform (ucd e) (tfidf_description e) ?q ! k
              + w_specifications * transform (ucd e) (tfidf_specifications e) ?q ! k)
          [0..<length (transform (ucd e) (tfidf_name e) ?q)])"
    using assms by (intro sum5_nth) (simp_all add: length_transform same_sizes_def)
  then show ?thesis
    by (simp add: get_weighted_tfidf_vector_def Let_def length_transform)
qed

lemma weighted_vector_length:
  assumes "get_weighted_tfidf_vector e q = Inr v"
  shows "same_sizes e \<and> length v = length (tfidf_name e)"
  using assms
  by (auto simp: get_weighted_tfidf_vector_def same_sizes_def Let_def add_res_cases
      length_scale length_transform)

lemma weighted_vector_error:
  "get_weighted_tfidf_vector e q = Inl err \<Longrightarrow> err = ValueError"
  by (auto simp: get_weighted_tfidf_vector_def Let_def dest!: add_res_error)

lemma weighted_vector_failure:
  assumes "\<not> same_sizes e"
  shows "get_weighted_tfidf_vector e q = Inl ValueError"
proof (cases "get_weighted_tfidf_vector e q")
  case (Inl err)
  then show ?thesis
    using weighted_vector_error by blast
next
  case (Inr v)
  then show ?thesis
    using weighted_vector_length assms by blast
qed

subsection \<open>The combined score\<close>

lemma cosine_similarity_docs:
  "length v = length vz \<Longrightarrow>
   cosine_similarity v (transform_docs (ucd e) vz docs)
     = Inr (map (field_similarity e v vz) docs)"
  by (simp add: cosine_similarity_def transform_docs_def field_similarity_def comp_def)

lemma sum5_map:
  "add_res (add_res (add_res (add_res
      (Inr (scale a (map f1 xs))) (scale b (map f2 xs))) (scale c (map f3 xs)))
      (scale d (map f4 xs))) (scale g (map f5 xs))
   = Inr (map (\<lambda>x. a * f1 x + b * f2 x + c * f3 x + d * f4 x + g * f5 x) xs)"
  by (induction xs) (simp_all add: add_res_Inr scale_def)

lemma combined_similarities_eq:
  assumes "same_sizes e" and "length v = length (tfidf_name e)"
  shows "combined_similarities e v = Inr (map (weighted_score e v) (df e))"
proof -
  have 1: "cosine_similarity v (tfidf_name_matrix e)
        = Inr (map (\<lambda>r. field_similarity e v (tfidf_name e) (normalized_product_name e r)) (df e))"
    using assms
    by (simp add: tfidf_name_matrix_def cosine_similarity_docs comp_def)
  have 2: "cosine_similarity v (tfidf_category_matrix e)
        = Inr (map (\<lambda>r. field_similarity e v (tfidf_category e) (normalized_product_category e r))
            (df e))"
    using assms
    by (simp add: tfidf_category_matrix_def cosine_similarity_docs comp_def same_sizes_def)
  have 3: "cosine_similarity v (tfidf_brand_matrix e)
        = Inr (map (\<lambda>r. field_similarity e v (tfidf_brand e) (normalized_brand e r)) (df e))"
    using assms
    by (simp add: tfidf_brand_matrix_def cosine_similarity_docs comp_def same_sizes_def)
  have 4: "cosine_similarity v (tfidf_description_matrix e)
        = Inr (map (\<lambda>r. field_similarity e v (tfidf_description e) (normalized_description e r))
            (df e))"
    using assms
    by (simp add: tfidf_description_matrix_def cosine_similarity_docs comp_def same_sizes_def)
  have 5: "cosine_similarity v (tfidf_specifications_matrix e)
        = Inr (map (\<lambda>r. field_similarity e v (tfidf_specifications e)
                  (normalized_extracted_specifications e r)) (df e))"
    using assms
    by (simp add: tfidf_specifications_matrix_def cosine_similarity_docs comp_def
        same_sizes_def)
  show ?thesis
    unfolding combined_similarities_def 1 2 3 4 5
    by (simp add: sum5_map weighted_score_def)
qed

lemma scores_eq:
  assumes "get_weighted_tfidf_vector e q = Inr v"
  shows "scores e q = Inr (map (weighted_score e v) (df e))"
  using assms weighted_vector_length [OF assms]
  by (simp add: scores_def combined_similarities_eq)

lemma scores_failure:
  assumes "\<not> same_sizes e"
  shows "scores e q = Inl ValueError"
  using weighted_vector_failure [OF assms] by (simp add: scores_def)

lemma rank_failure:
  assumes "\<not> same_sizes e"
  shows "rank e q top_n = Inl ValueError"
  using scores_failure [OF assms] by (simp add: rank_def)

subsection \<open>The small catalog, evaluated\<close>

lemma l2_normalize_single: "l2_normalize [x] = [sgn x]"
  by (simp add: l2_normalize_def l2_norm_def sgn_real_def)

lemma transform_single:
  "transform U [(t, w)] doc = [sgn (real (count_list (tokenize U (py_lower U doc)) t) * w)]"
  by (simp add: transform_def l2_normalize_single)

lemma field_similarity_single:
  "field_similarity e [x] [(t, w)] doc
     = sgn x * sgn (real (count_list (tokenize (ucd e) (py_lower (ucd e) doc)) t) * w)"
  by (simp add: field_similarity_def cosine_def transform_single l2_normalize_single dot_def)

lemma shop_same_sizes: "same_sizes (shop_with d)"
  by (simp add: same_sizes_def shop_with_def)

lemma uneven_shop_sizes: "\<not> same_sizes uneven_shop"
  by (simp add: same_sizes_def uneven_shop_def shop_def shop_with_def)

lemma shop_ucd: "ucd (shop_with d) = ucd_sample" "df (shop_with d) = d"
  by (simp_all add: shop_with_def)

lemma query_shoes_counts:
  "count_list (tokenize ucd_sample (py_lower ucd_sample
      (normalize_text_simple ucd_sample (Some (str ''shoes''))))) (str ''shoes'') = 1"
  "count_list (tokenize ucd_sample (py_lower ucd_sample
      (normalize_text_simple ucd_sample (Some (str ''shoes''))))) (str ''footwear'') = 0"
  "count_list (tokenize ucd_sample (py_lower ucd_sample
      (normalize_text_simple ucd_sample (Some (str ''shoes''))))) (str ''acme'') = 0"
  "count_list (tokenize ucd_sample (py_lower ucd_sample
      (normalize_text_simple ucd_sample (Some (str ''shoes''))))) (str ''leather'') = 0"
  by (simp_all add: sample_simps)

lemma query_marks_counts:
  "normalize_text_simple ucd_sample (Some (str ''!!!'')) = []"
  "py_strip ucd_sample (str ''!!!'') = str ''!!!''"
  "py_strip ucd_sample (str ''shoes'') = str ''shoes''"
  "str ''!!!'' \<noteq> []"
  "str ''shoes'' \<noteq> []"
  "count_list (tokenize ucd_sample (py_lower ucd_sample [])) t = 0"
  by (simp_all add: sample_simps)

lemma doc_counts:
  "count_list (tokenize ucd_sample (py_lower ucd_sample
      (normalize_text_simple ucd_sample (Some (str ''Shoes''))))) (str ''shoes'') = 1"
  "count_list (tokenize ucd_sample (py_lower ucd_sample
      (normalize_text_simple ucd_sample (Some (str ''Shoes!''))))) (str ''shoes'') = 1"
  "count_list (tokenize ucd_sample (py_lower ucd_sample
      (normalize_text_simple ucd_sample (Some (str ''Footwear''))))) (str ''footwear'') = 1"
  "count_list (tokenize ucd_sample (py_lower ucd_sample
      (normalize_text_simple ucd_sample (Some (str ''Acme''))))) (str ''acme'') = 1"
  "count_list (tokenize ucd_sample (py_lower ucd_sample
      (normalize_text_simple ucd_sample (Some (str ''Leather''))))) (str ''leather'') = 1"
  by (simp_all add: sample_simps)

lemma shop_vector_shoes: "get_weighted_tfidf_vector (shop_with d) (str ''shoes'') = Inr [11 / 20]"
  by (simp add: get_weighted_tfidf_vector_def shop_with_def transform_single
      query_shoes_counts add_res_Inr scale_def w_name_def w_category_def w_brand_def
      w_description_def w_specifications_def)

lemma shop_vector_marks: "get_weighted_tfidf_vector (shop_with d) (str ''!!!'') = Inr [0]"
  by (simp add: get_weighted_tfidf_vector_def shop_with_def transform_single
      query_marks_counts add_res_Inr scale_def)

lemma shoe_rows: "shoe_texts row_a" "shoe_texts row_b" "shoe_texts row_five"
  "shoe_texts row_clock"
  by (simp_all add: shoe_texts_def row_a_def row_b_def row_five_def row_clock_def)

lemma shop_weighted_score:
  assumes "shoe_texts r"
  shows "weighted_score (shop_with d) [x] r = sgn x"
  using assms
  by (simp add: weighted_score_def shop_with_def shoe_texts_def field_similarity_single
      doc_counts normalized_product_name_def normalized_product_category_def
      normalized_brand_def normalized_description_def
      normalized_extracted_specifications_def
      w_name_def w_category_def w_brand_def w_description_def w_specifications_def)

lemma shop_scores_shoes:
  assumes "shoe_texts r1" and "shoe_texts r2"
  shows "scores (shop_with [r1, r2]) (str ''shoes'') = Inr [1, 1]"
  by (simp add: scores_eq [OF shop_vector_shoes] shop_ucd shop_weighted_score assms)

lemma shop_scores_marks:
  assumes "shoe_texts r1" and "shoe_texts r2"
  shows "scores (shop_with [r1, r2]) (str ''!!!'') = Inr [0, 0]"
  by (simp add: scores_eq [OF shop_vector_marks] shop_ucd shop_weighted_score assms)

lemma shop_unweighted_a: "unweighted_sum shop [11 / 20] row_a = 5"
  by (simp add: unweighted_sum_def shop_def shop_with_def row_a_def field_similarity_single
      doc_counts normalized_product_name_def normalized_product_category_def
      normalized_brand_def normalized_description_def
      normalized_extracted_specifications_def)

lemma shop_spec_score_a: "spec_combined_score shop (str ''shoes'') row_a = 2"
  by (simp add: spec_combined_score_def shop_def shop_with_def row_a_def
      field_similarity_single doc_counts transform_single query_shoes_counts scale_def
      normalized_product_name_def normalized_product_category_def normalized_brand_def
      normalized_description_def normalized_extracted_specifications_def
      w_name_def w_category_def w_brand_def w_description_def w_specifications_def)

text \<open>
  C10. The query vector is the sum of the five weighted per-field vectors in one sparse
  vector. The sum is defined exactly when the five vocabularies have the same size (as
  they do when each has reached the cap of 3000 terms); when two sizes differ the
  addition raises a shape error, and every query that is not blank raises instead of
  returning results.
\<close>

theorem vectorization_needs_equal_sizes:
  "(same_sizes e \<longrightarrow>
      (\<exists>v. get_weighted_tfidf_vector e q = Inr v \<and> length v = length (tfidf_name e)))
   \<and> (all_at_cap e \<longrightarrow> same_sizes e)
   \<and> (\<not> same_sizes e \<longrightarrow>
        get_weighted_tfidf_vector e q = Inl ValueError
        \<and> (py_strip (ucd e) q \<noteq> [] \<longrightarrow>
             get_relevant_products e w q max_price min_discount min_rating top_n
               = (Inl ValueError, w)))"
proof -
  have a: "\<exists>v. get_weighted_tfidf_vector e q = Inr v \<and> length v = length (tfidf_name e)"
    if "same_sizes e"
    using weighted_vector_eq [OF that, of q] by simp
  have b: "same_sizes e" if "all_at_cap e"
    using that by (simp add: all_at_cap_def same_sizes_def)
  have c: "get_weighted_tfidf_vector e q = Inl ValueError" if "\<not> same_sizes e"
    using that by (rule weighted_vector_failure)
  have d: "get_relevant_products e w q max_price min_discount min_rating top_n
      = (Inl ValueError, w)"
    if "\<not> same_sizes e" and "py_strip (ucd e) q \<noteq> []"
    using that rank_failure [OF that(1), of q top_n]
    by (simp add: get_relevant_products_def)
  from a b c d show ?thesis by blast
qed

theorem vectorization_needs_equal_sizes_witness:
  "same_sizes shop
   \<and> (\<exists>v. get_weighted_tfidf_vector shop (str ''shoes'') = Inr v \<and> length v = 1)
   \<and> \<not> same_sizes uneven_shop
   \<and> py_strip (ucd uneven_shop) (str ''shoes'') \<noteq> []
   \<and> get_weighted_tfidf_vector uneven_shop (str ''shoes'') = Inl ValueError
   \<and> get_relevant_products uneven_shop 0 (str ''shoes'') 99999 0 0 12 = (Inl ValueError, 0)"
proof -
  have s: "py_strip (ucd uneven_shop) (str ''shoes'') \<noteq> []"
    by (simp add: uneven_shop_def shop_def shop_ucd query_marks_counts)
  have n: "length (tfidf_name shop) = 1"
    by (simp add: shop_def shop_with_def)
  have z: "same_sizes shop"
    by (simp add: shop_def shop_same_sizes)
  show ?thesis
    using vectorization_needs_equal_sizes [of shop "str ''shoes''"]
      vectorization_needs_equal_sizes [of uneven_shop "str ''shoes''" 0 99999 0 0 12]
      z uneven_shop_sizes s n
    by simp
qed

text \<open>
  C1 (as the code has it). For a query whose vector can be built, the five weighted
  per-field vectors are added into one vector; every field's similarity is the cosine of
  that one vector and the row's vector of the field; and the combined score of a row is
  the sum of its five similarities, each multiplied by the weight of its field once more.
\<close>

theorem combined_score_weighted:
  assumes "get_weighted_tfidf_vector e q = Inr v" and "i < length (df e)"
  shows "v = map (\<lambda>k.
                w_name * transform (ucd e) (tfidf_name e)
                           (normalize_text_simple (ucd e) (Some q)) ! k
              + w_category * transform (ucd e) (tfidf_category e)
                           (normalize_text_simple (ucd e) (Some q)) ! k
              + w_brand * transform (ucd e) (tfidf_brand e)
                           (normalize_text_simple (ucd e) (Some q)) ! k
              + w_description * transform (ucd e) (tfidf_description e)
                           (normalize_text_simple (ucd e) (Some q)) ! k
              + w_specifications * transform (ucd e) (tfidf_specifications e)
                           (normalize_text_simple (ucd e) (Some q)) ! k)
          [0..<length (tfidf_name e)]
    \<and> (\<exists>c. scores e q = Inr c \<and> length c = length (df e)
          \<and> c ! i = weighted_score e v (df e ! i))"
proof -
  have s: "same_sizes e"
    using weighted_vector_length [OF assms(1)] by simp
  have "scores e q = Inr (map (weighted_score e v) (df e))"
    using assms(1) by (rule scores_eq)
  moreover have "map (weighted_score e v) (df e) ! i = weighted_score e v (df e ! i)"
    using assms(2) by simp
  ultimately have "\<exists>c. scores e q = Inr c \<and> length c = length (df e)
          \<and> c ! i = weighted_score e v (df e ! i)"
    by simp
  then show ?thesis
    using weighted_vector_eq [OF s, of q] assms(1) by simp
qed

theorem combined_score_weighted_witness:
  "get_weighted_tfidf_vector shop (str ''shoes'') = Inr [11 / 20]
   \<and> (0::nat) < length (df shop)
   \<and> (\<exists>c. scores shop (str ''shoes'') = Inr c \<and> length c = length (df shop)
          \<and> c ! 0 = weighted_score shop [11 / 20] (df shop ! 0))"
proof -
  have v: "get_weighted_tfidf_vector shop (str ''shoes'') = Inr [11 / 20]"
    by (simp add: shop_def shop_vector_shoes)
  have i: "(0::nat) < length (df shop)"
    by (simp add: shop_def shop_ucd)
  show ?thesis
    using combined_score_weighted [OF v i, THEN conjunct2] v i
    by blast
qed

text \<open>
  C1 as stated fails. In the small catalog the query \<open>shoes\<close> is not blank; the score
  the code gives the first row is 1, while its five similarities add up to 5, and the
  score worded by the specification (five separate weighted query vectors, similarities
  added with no weight) is 2.
\<close>

theorem combined_score_unweighted_counterexample:
  "py_strip (ucd shop) (str ''shoes'') \<noteq> []
   \<and> df shop ! 0 = row_a
   \<and> get_weighted_tfidf_vector shop (str ''shoes'') = Inr [11 / 20]
   \<and> scores shop (str ''shoes'') = Inr [1, 1]
   \<and> unweighted_sum shop [11 / 20] row_a = 5
   \<and> spec_combined_score shop (str ''shoes'') row_a = 2"
proof -
  have "py_strip (ucd shop) (str ''shoes'') \<noteq> []"
    by (simp add: shop_def shop_ucd query_marks_counts)
  moreover have "df shop ! 0 = row_a"
    by (simp add: shop_def shop_ucd)
  moreover have "get_weighted_tfidf_vector shop (str ''shoes'') = Inr [11 / 20]"
    by (simp add: shop_def shop_vector_shoes)
  moreover have "scores shop (str ''shoes'') = Inr [1, 1]"
    unfolding shop_def by (rule shop_scores_shoes) (rule shoe_rows)+
  ultimately show ?thesis
    using shop_unweighted_a shop_spec_score_a by blast
qed

subsection \<open>The order of \<open>top_indices\<close>\<close>




lemma length_argsort: "length (argsort e a) = length a"
  by (simp add: argsort_def)





lemma length_top_indices:
  "0 < top_n \<Longrightarrow> length (top_indices e a top_n) = min (nat top_n) (length a)"
  by (auto simp: top_indices_def slice_from_def Let_def length_argsort)

lemma top_indices_zero: "top_indices e a 0 = rev (argsort e a)"
  by (simp add: top_indices_def slice_from_def)


lemma argsort_pair: "argsort e [x, y] = (if x \<le> y then [0, 1] else [1, 0])"
  by (simp add: argsort_def small_sort_def upt_rec)

lemma top_indices_tied_pair:
  "top_indices e [x, x] 12 = [1, 0]" "top_indices e [x, x] 0 = [1, 0]"
  by (simp_all add: top_indices_def argsort_pair slice_from_def)

subsection \<open>Blank queries\<close>

lemma py_strip_Nil_iff: "py_strip U q = [] \<longleftrightarrow> list_all (is_space_char U) q"
proof
  assume "py_strip U q = []"
  then have a: "\<forall>x\<in>set (dropWhile (is_space_char U) q). is_space_char U x"
    by (simp add: py_strip_def dropWhile_eq_Nil_conv)
  show "list_all (is_space_char U) q"
  proof (rule ccontr)
    assume "\<not> list_all (is_space_char U) q"
    then have n: "dropWhile (is_space_char U) q \<noteq> []"
      by (simp add: dropWhile_eq_Nil_conv list_all_iff)
    then have "\<not> is_space_char U (hd (dropWhile (is_space_char U) q))"
      by (rule hd_dropWhile)
    moreover have "hd (dropWhile (is_space_char U) q) \<in> set (dropWhile (is_space_char U) q)"
      using n by simp
    ultimately show False
      using a by blast
  qed
next
  assume "list_all (is_space_char U) q"
  then show "py_strip U q = []"
    by (auto simp: py_strip_def list_all_iff dest: set_dropWhileD)
qed

subsection \<open>The product summaries\<close>

lemma build_products_length:
  "fst (build_products e w rs) = Inr ps \<Longrightarrow> length ps \<le> length rs"
proof (induction rs arbitrary: w ps)
  case Nil
  then show ?case by simp
next
  case (Cons r rs)
  obtain v w1 where ev: "eval_image e (source r) w = (v, w1)"
    by (cases "eval_image e (source r) w")
  show ?case
  proof (cases "truthy v")
    case True
    with Cons.prems ev obtain ps' where "fst (build_products e w1 rs) = Inr ps'"
      and "length ps = Suc (length ps')"
      by (auto split: sum.splits prod.splits)
    with Cons.IH show ?thesis by fastforce
  next
    case False
    with Cons.prems ev have "fst (build_products e w1 rs) = Inr ps"
      by simp
    with Cons.IH show ?thesis by fastforce
  qed
qed

lemma failed_eval_dropped:
  assumes "eval_image e (source r) w = (PList [], w1)"
  shows "build_products e w (r # rs) = build_products e w1 rs"
  using assms by simp






subsection \<open>The small catalog, searched\<close>

lemma shop_rank:
  assumes "shoe_texts r1" and "shoe_texts r2"
  shows "rank (shop_with [r1, r2]) (str ''shoes'') 12 = Inr [1, 0]"
    and "rank (shop_with [r1, r2]) (str ''shoes'') 0 = Inr [1, 0]"
    and "rank (shop_with [r1, r2]) (str ''!!!'') 12 = Inr [1, 0]"
  by (simp_all add: rank_def shop_scores_shoes shop_scores_marks assms top_indices_tied_pair)

lemma shop_results:
  "results (shop_with [r1, r2]) [1, 0]
     = [make_result (shop_with [r1, r2]) r2, make_result (shop_with [r1, r2]) r1]"
  "results (shop_with [r1, r2]) [Suc 0, 0]
     = [make_result (shop_with [r1, r2]) r2, make_result (shop_with [r1, r2]) r1]"
  by (simp_all add: results_def shop_ucd)

lemma shop_results_image:
  "make_result (shop_with d) (row_a\<lparr>image_col := x\<rparr>)
    = \<lparr>source = row_a\<lparr>image_col := x\<rparr>, rating = Some (9 / 2),
       discount_percentage = Some 20\<rparr>"
  by (simp add: make_result_def to_numeric_def shop_with_def shop_numbers row_a_def
      calculate_discount_percentage_def)

lemma shop_masks:
  "row_mask 99999 0 0 (make_result (shop_with d) row_a)"
  "row_mask 99999 0 0 (make_result (shop_with d) row_b)"
  "row_mask 99999 0 0 (make_result (shop_with d) row_five)"
  "row_mask 99999 0 0 (make_result (shop_with d) row_clock)"
  unfolding row_five_def row_clock_def shop_results_a shop_results_b shop_results_image
  by (simp_all add: row_mask_def price_mask_def discount_mask_def rating_mask_def fillna_def
      isna_def row_a_def row_b_def)

lemma shop_filtered:
  assumes "row_mask 99999 0 0 x" and "row_mask 99999 0 0 y"
  shows "filtered_results 99999 0 0 [x, y] = [x, y]"
  using assms by (simp add: filtered_results_def)

lemma image_texts:
  "str ''['a.jpg']'' \<noteq> str ''['b.jpg']''"
  "str ''['b.jpg']'' \<noteq> str ''['a.jpg']''"
  "str ''5'' \<noteq> str ''['a.jpg']''"
  "str ''5'' \<noteq> str ''['b.jpg']''"
  "str ''[__import__('time').time_ns()]'' \<noteq> str ''['a.jpg']''"
  "str ''[__import__('time').time_ns()]'' \<noteq> str ''['b.jpg']''"
  "str ''[__import__('time').time_ns()]'' \<noteq> str ''5''"
  "str ''a.jpg, b.jpg'' \<noteq> str ''['a.jpg']''"
  "str ''a.jpg, b.jpg'' \<noteq> str ''['b.jpg']''"
  "str ''a.jpg, b.jpg'' \<noteq> str ''5''"
  "str ''a.jpg, b.jpg'' \<noteq> str ''[__import__('time').time_ns()]''"
  by (simp_all add: str_def)

lemma shop_images:
  "eval_image (shop_with d) row_a w = (PList [PStr (str ''a.jpg'')], w)"
  "eval_image (shop_with d) row_b w = (PList [PStr (str ''b.jpg'')], w)"
  "eval_image (shop_with d) row_c w = (PList [], w)"
  "eval_image (shop_with d) row_five w = (PNum 5, w)"
  "eval_image (shop_with d) row_clock w = (PList [PNum (real w)], Suc w)"
  by (simp_all add: eval_image_def row_a_def row_b_def row_c_def row_five_def row_clock_def
      shop_with_def shop_eval_def image_texts)

lemma shop_sources:
  "source (make_result e r) = r"
  by (simp add: make_result_def)

lemma shop_products:
  "build_products (shop_with d) w [make_result (shop_with d) row_b, make_result (shop_with d) row_a]
     = (Inr [product_b, product_a], w)"
  by (simp add: shop_sources shop_images product_a_def product_b_def)
     (simp add: row_a_def row_b_def)

lemma five_products:
  "build_products (shop_with d) w
     [make_result (shop_with d) row_b, make_result (shop_with d) row_five]
     = (Inl TypeError, w)"
  by (simp add: shop_sources shop_images)

lemma failed_eval_example:
  "build_products (shop_with d) w
     [make_result (shop_with d) row_c, make_result (shop_with d) row_a]
     = (Inr [product_a], w)"
  by (simp add: shop_sources shop_images product_a_def) (simp add: row_a_def)


lemma shop_search:
  "get_relevant_products shop w (str ''shoes'') 99999 0 0 12 = (Inr [product_b, product_a], w)"
  "get_relevant_products shop w (str ''shoes'') 99999 0 0 0 = (Inr [product_b, product_a], w)"
  "get_relevant_products shop w (str ''!!!'') 99999 0 0 12 = (Inr [product_b, product_a], w)"
  unfolding shop_def
  by (simp_all add: get_relevant_products_def shop_ucd query_marks_counts shop_rank shoe_rows
      shop_results shop_filtered shop_masks shop_products del: build_products.simps)

lemma five_search:
  "get_relevant_products five_shop w (str ''shoes'') 99999 0 0 12 = (Inl TypeError, w)"
  unfolding five_shop_def
  by (simp add: get_relevant_products_def shop_ucd query_marks_counts shop_rank shoe_rows
      shop_results shop_filtered shop_masks five_products del: build_products.simps)





subsection \<open>The number of rows\<close>

lemma selection_size:
  assumes "rank e q top_n = Inr idx" and "0 < top_n"
  shows "length idx = min (nat top_n) (length (df e))"
proof -
  obtain v where v: "get_weighted_tfidf_vector e q = Inr v"
    using assms(1) by (auto simp: rank_def scores_def split: sum.splits)
  have "scores e q = Inr (map (weighted_score e v) (df e))"
    using v by (rule scores_eq)
  then have "idx = top_indices e (map (weighted_score e v) (df e)) top_n"
    using assms(1) by (simp add: rank_def)
  then show ?thesis
    using assms(2) by (simp add: length_top_indices)
qed

lemma result_size:
  assumes "fst (get_relevant_products e w q max_price min_discount min_rating top_n) = Inr ps"
    and "0 < top_n"
  shows "length ps \<le> min (nat top_n) (length (df e))"
proof (cases "py_strip (ucd e) q = []")
  case True
  then show ?thesis
    using assms(1) by (auto simp: get_relevant_products_def)
next
  case False
  then obtain idx where idx: "rank e q top_n = Inr idx"
    and ps: "fst (build_products e w
        (filtered_results max_price min_discount min_rating (results e idx))) = Inr ps"
    using assms(1) by (auto simp: get_relevant_products_def split: sum.splits)
  have "length ps \<le> length (filtered_results max_price min_discount min_rating (results e idx))"
    using ps by (rule build_products_length)
  also have "\<dots> \<le> length (results e idx)"
    by (simp add: filtered_results_def)
  also have "\<dots> = min (nat top_n) (length (df e))"
    using selection_size [OF idx assms(2)] by (simp add: results_def)
  finally show ?thesis .
qed

text \<open>
  C5. The claim bounds the selection by \<open>min(top_n, catalog_size)\<close>. With \<open>top_n = 0\<close>
  the slice \<open>[-0:]\<close> is the whole array: on the small catalog the query \<open>shoes\<close>, which
  is not blank, selects both rows and returns two products, where the bound is 0.
\<close>

theorem top_n_zero_selects_all:
  "py_strip (ucd shop) (str ''shoes'') \<noteq> []
   \<and> length (df shop) = 2
   \<and> rank shop (str ''shoes'') 0 = Inr [1, 0]
   \<and> get_relevant_products shop 0 (str ''shoes'') 99999 0 0 0
       = (Inr [product_b, product_a], 0)"
proof -
  have "py_strip (ucd shop) (str ''shoes'') \<noteq> []"
    by (simp add: shop_def shop_ucd query_marks_counts)
  moreover have "length (df shop) = 2"
    by (simp add: shop_def shop_ucd)
  moreover have "rank shop (str ''shoes'') 0 = Inr [1, 0]"
    unfolding shop_def by (rule shop_rank) (rule shoe_rows)+
  ultimately show ?thesis
    using shop_search(2) [of 0] by blast
qed

text \<open>
  C3 (as the code has it). A query whose stripped form is empty, that is a query of
  whitespace characters only, returns the empty list, whatever the thresholds and
  whatever the state of the vocabularies: nothing is computed or evaluated.
\<close>

theorem blank_query_empty:
  assumes "list_all (is_space_char (ucd e)) q"
  shows "py_strip (ucd e) q = []
    \<and> get_relevant_products e w q max_price min_discount min_rating top_n = (Inr [], w)"
  using assms by (simp add: get_relevant_products_def py_strip_Nil_iff)

theorem blank_query_empty_witness:
  "list_all (is_space_char (ucd uneven_shop)) [32, 160, 9]
   \<and> get_relevant_products uneven_shop 0 [32, 160, 9] 0 100 5 12 = (Inr [], 0)"
proof -
  have h: "list_all (is_space_char (ucd uneven_shop)) [32, 160, 9]"
    by (simp add: uneven_shop_def shop_def shop_ucd sample_simps)
  show ?thesis
    using blank_query_empty [OF h, of 0 0 100 5 12] h by blast
qed

text \<open>
  C3 as stated fails. The query \<open>!!!\<close> normalizes to the empty string, but it is not
  blank, and the search returns both rows of the small catalog.
\<close>

theorem punctuation_query_counterexample:
  "normalize_text_simple (ucd shop) (Some (str ''!!!'')) = []
   \<and> get_relevant_products shop 0 (str ''!!!'') 99999 0 0 12
       = (Inr [product_b, product_a], 0)"
proof -
  have "normalize_text_simple (ucd shop) (Some (str ''!!!'')) = []"
    by (simp add: shop_def shop_ucd query_marks_counts)
  then show ?thesis
    using shop_search(3) [of 0] by blast
qed

text \<open>
  C6. The claim has every image field that is no list of URLs recovered as an empty
  list, with no exception reaching the caller. The \<open>try\<close> covers \<open>eval\<close> only: the image
  text \<open>5\<close> evaluates, to a number, which is true and cannot be subscripted, and the
  search on the catalog that holds it raises \<open>TypeError\<close>.
\<close>

theorem non_list_image_raises:
  "image_col row_five = Some (str ''5'')
   \<and> eval_image five_shop row_five 0 = (PNum 5, 0)
   \<and> truthy (PNum 5)
   \<and> getitem0 (PNum 5) = Inl TypeError
   \<and> get_relevant_products five_shop 0 (str ''shoes'') 99999 0 0 12 = (Inl TypeError, 0)"
proof -
  have "image_col row_five = Some (str ''5'')"
    by (simp add: row_five_def)
  moreover have "eval_image five_shop row_five 0 = (PNum 5, 0)"
    by (simp add: five_shop_def shop_images)
  ultimately show ?thesis
    using five_search [of 0] by simp
qed

subsection \<open>Two invocations\<close>





end
